theory Spec2Isabelle
  imports Complex_Main "HOL-Library.Sublist" "HOL-Library.Multiset"
begin

section \<open>The recommendation service\<close>

text \<open>
  A shallow embedding of \<^verbatim>\<open>recommendation_service.py\<close>: the offline store
  (class \<^verbatim>\<open>Recommendations\<close>), the deduplication helper, the online candidate
  generator and the blending endpoint. Item and user identifiers are Python integers
  (\<^typ>\<open>int\<close>); every exception the Python can raise is a value of \<open>py_error\<close>, and a
  function that can raise returns \<open>py_error + 'a\<close>.
\<close>

subsection \<open>Python primitives used by the service\<close>

datatype py_error = KeyError | TypeError | AttributeError | RequestError

text \<open>
  The slice \<^verbatim>\<open>xs[:k]\<close>. For \<open>k \<ge> 0\<close> it is the first \<open>k\<close> elements; a negative
  \<open>k\<close> counts from the end, so the slice stops \<open>-k\<close> elements before the end of the list
  (and is empty when the list is not longer than \<open>-k\<close>). It never raises.
\<close>

definition py_slice_to :: "'a list \<Rightarrow> int \<Rightarrow> 'a list" where
  "py_slice_to xs k =
     (if 0 \<le> k then take (nat k) xs else take (nat (int (length xs) + k)) xs)"

subsection \<open>Deduplication\<close>

text \<open>
  \<^verbatim>\<open>
  def dedup_ids(ids):
      seen = set()
      ids = [id for id in ids if not (id in seen or seen.add(id))]
      return ids
  \<close>
  The comprehension walks \<open>ids\<close> from left to right with the mutable set \<open>seen\<close>: an
  element already in \<open>seen\<close> is skipped; any other element is added to \<open>seen\<close>
  (\<^verbatim>\<open>seen.add\<close> returns \<^verbatim>\<open>None\<close>, which is falsy) and kept.
\<close>

fun dedup_loop :: "'a set \<Rightarrow> 'a list \<Rightarrow> 'a list" where
  "dedup_loop seen [] = []"
| "dedup_loop seen (x # xs) =
     (if x \<in> seen then dedup_loop seen xs else x # dedup_loop (insert x seen) xs)"

definition dedup_ids :: "'a list \<Rightarrow> 'a list" where
  "dedup_ids ids = dedup_loop {} ids"

subsection \<open>The offline store\<close>

text \<open>
  The two tables are pandas data frames. A frame is modelled by its rows in stored order;
  the only columns read by the service are \<^verbatim>\<open>item_id\<close> and \<^verbatim>\<open>rank\<close>. The personal
  frame is indexed by \<^verbatim>\<open>user_id\<close> (\<^verbatim>\<open>set_index("user_id")\<close> in \<^verbatim>\<open>load\<close>), so each
  of its rows carries its index label; the default frame has no user key.
\<close>

record rec_row =
  item_id :: int
  rank :: int

type_synonym personal_frame = "(int \<times> rec_row) list"
type_synonym default_frame = "rec_row list"

text \<open>
  \<^verbatim>\<open>
  class Recommendations:
      def __init__(self):
          self._recs = {"personal": None, "default": None}
          self._stats = {"request_personal_count": 0, "request_default_count": 0}
  \<close>
  The two dictionaries have fixed keys, so the object is a record of four fields; a table
  that has not been loaded is \<^verbatim>\<open>None\<close>.
\<close>

record Recommendations =
  recs_personal :: "personal_frame option"
  recs_default :: "default_frame option"
  request_personal_count :: int
  request_default_count :: int

definition Recommendations_init :: Recommendations where
  "Recommendations_init =
     \<lparr>recs_personal = None, recs_default = None,
      request_personal_count = 0, request_default_count = 0\<rparr>"

text \<open>
  \<^verbatim>\<open>load(type, path)\<close> stores the frame read from \<open>path\<close> under \<open>type\<close>; the frame
  read from the file is the parameter here.
\<close>

definition load_personal :: "Recommendations \<Rightarrow> personal_frame \<Rightarrow> Recommendations" where
  "load_personal self df = self\<lparr>recs_personal := Some df\<rparr>"

definition load_default :: "Recommendations \<Rightarrow> default_frame \<Rightarrow> Recommendations" where
  "load_default self df = self\<lparr>recs_default := Some df\<rparr>"

text \<open>
  \<^verbatim>\<open>df.loc[user_id]\<close> on the personal frame. No row with that label raises
  \<^verbatim>\<open>KeyError\<close>. A label carried by exactly one row selects that row as a
  \<^verbatim>\<open>Series\<close> (indexed by the column names); a label carried by several rows selects
  the sub-frame of those rows, in stored order.
\<close>

datatype loc_result = Series rec_row | DataFrame "rec_row list"

fun loc_rows :: "(int \<times> rec_row) list \<Rightarrow> py_error + loc_result" where
  "loc_rows [] = Inl KeyError"
| "loc_rows [r] = Inr (Series (snd r))"
| "loc_rows rs = Inr (DataFrame (map snd rs))"

definition loc :: "personal_frame \<Rightarrow> int \<Rightarrow> py_error + loc_result" where
  "loc df label = loc_rows (filter (\<lambda>r. fst r = label) df)"

text \<open>
  \<^verbatim>\<open>recs["item_id"].to_list()\<close> on the result of \<^verbatim>\<open>.loc\<close>. On a sub-frame,
  \<^verbatim>\<open>recs["item_id"]\<close> is the column and \<^verbatim>\<open>to_list\<close> its values in order. On a
  single row, \<^verbatim>\<open>recs["item_id"]\<close> is the scalar stored in that row, a NumPy integer,
  which has no attribute \<^verbatim>\<open>to_list\<close>: the call raises \<^verbatim>\<open>AttributeError\<close>.
\<close>

fun item_id_to_list :: "loc_result \<Rightarrow> py_error + int list" where
  "item_id_to_list (Series row) = Inl AttributeError"
| "item_id_to_list (DataFrame rows) = Inr (map item_id rows)"

text \<open>
  \<^verbatim>\<open>
  def get(self, user_id: int, k: int = 100):
      try:
          recs = self._recs["personal"].loc[user_id]
          recs = recs["item_id"].to_list()[:k]
          self._stats["request_personal_count"] += 1
      except KeyError:
          recs = self._recs["default"]
          recs = recs["item_id"].to_list()[:k]
          self._stats["request_default_count"] += 1
      except:
          logger.error(f"No recommendations found")
          recs = []
      return recs
  \<close>
  Each part returns the object as it leaves it together with either the exception raised
  or the value of \<open>recs\<close>. In the body of the \<^verbatim>\<open>try\<close>, \<^verbatim>\<open>None.loc\<close> raises
  \<^verbatim>\<open>AttributeError\<close> when the personal table is not loaded.
\<close>

definition get_try ::
  "Recommendations \<Rightarrow> int \<Rightarrow> int \<Rightarrow> Recommendations \<times> (py_error + int list)" where
  "get_try self user_id k =
     (case recs_personal self of
        None \<Rightarrow> (self, Inl AttributeError)
      | Some df \<Rightarrow>
          (case loc df user_id of
             Inl e \<Rightarrow> (self, Inl e)
           | Inr recs \<Rightarrow>
               (case item_id_to_list recs of
                  Inl e \<Rightarrow> (self, Inl e)
                | Inr ids \<Rightarrow>
                    (self\<lparr>request_personal_count := request_personal_count self + 1\<rparr>,
                     Inr (py_slice_to ids k)))))"

text \<open>
  The handler of \<^verbatim>\<open>KeyError\<close>. Subscripting \<^verbatim>\<open>None\<close> raises \<^verbatim>\<open>TypeError\<close>
  when the default table is not loaded.
\<close>

definition get_except_KeyError ::
  "Recommendations \<Rightarrow> int \<Rightarrow> Recommendations \<times> (py_error + int list)" where
  "get_except_KeyError self k =
     (case recs_default self of
        None \<Rightarrow> (self, Inl TypeError)
      | Some recs \<Rightarrow>
          (self\<lparr>request_default_count := request_default_count self + 1\<rparr>,
           Inr (py_slice_to (map item_id recs) k)))"

text \<open>
  The \<^verbatim>\<open>try\<close> statement: a \<^verbatim>\<open>KeyError\<close> from the body runs the first handler, any
  other exception from the body runs the bare \<^verbatim>\<open>except\<close>. An exception raised inside
  a handler is not offered to the other handlers of the same statement: it leaves
  \<open>get\<close>.
\<close>

definition get ::
  "Recommendations \<Rightarrow> int \<Rightarrow> int \<Rightarrow> Recommendations \<times> (py_error + int list)" where
  "get self user_id k =
     (case get_try self user_id k of
        (self', Inr recs) \<Rightarrow> (self', Inr recs)
      | (self', Inl KeyError) \<Rightarrow> get_except_KeyError self' k
      | (self', Inl _) \<Rightarrow> (self', Inr []))"

text \<open>
  \<^verbatim>\<open>recommendations_offline\<close> calls \<open>get\<close> on the module-level store
  \<^verbatim>\<open>rec_store\<close>, passed explicitly here, and wraps the list as \<^verbatim>\<open>{"recs": recs}\<close>.
\<close>

definition recommendations_offline ::
  "Recommendations \<Rightarrow> int \<Rightarrow> int \<Rightarrow> Recommendations \<times> (py_error + int list)" where
  "recommendations_offline rec_store user_id k = get rec_store user_id k"



subsection \<open>The online candidate generator\<close>

text \<open>
  The two HTTP collaborators are parameters. \<open>events_store user_id k\<close> stands for
  \<^verbatim>\<open>requests.post(events_store_url + "/get", ...).json()["events"]\<close> and
  \<open>features_store item_id k\<close> for the pair of lists \<^verbatim>\<open>item_id_2\<close> and \<^verbatim>\<open>score\<close>
  of the response of \<^verbatim>\<open>/similar_items\<close>. Either returns \<open>Inl\<close> when the request,
  the JSON decoding or the key lookup raises.

  A score is a JSON number as Python decodes it: a number, or the float \<^verbatim>\<open>nan\<close>, which
  Python's \<^verbatim>\<open>json\<close> accepts. \<open>py_lt\<close> is Python's \<^verbatim>\<open><\<close> on scores: every
  comparison with \<^verbatim>\<open>nan\<close> is false. Scores are only compared, never computed with, so
  the numbers are taken as reals; the two infinities of the floats compare like numbers
  beyond all others and are not kept apart from them. \<open>num\<close> reads the number of a
  score and is applied only to lists without \<^verbatim>\<open>nan\<close>.
\<close>

datatype score = NaN | Num real

fun py_lt :: "score \<Rightarrow> score \<Rightarrow> bool" where
  "py_lt (Num x) (Num y) = (x < y)"
| "py_lt _ _ = False"

fun num :: "score \<Rightarrow> real" where
  "num (Num x) = x"
| "num NaN = 0"

type_synonym events_lookup = "int \<Rightarrow> int \<Rightarrow> py_error + int list"
type_synonym similar_lookup = "int \<Rightarrow> int \<Rightarrow> py_error + (int list \<times> score list)"

text \<open>
  The loop over the seed items, with its two accumulators; an exception raised by a
  lookup leaves the loop and the function. The loop variable \<^verbatim>\<open>item_id\<close> is
  \<open>seed_id\<close> here, the name \<open>item_id\<close> being the column of the tables.
\<close>

fun similar_items_loop ::
  "similar_lookup \<Rightarrow> int \<Rightarrow> int list \<Rightarrow> int list \<Rightarrow> score list
     \<Rightarrow> py_error + (int list \<times> score list)"
  where
  "similar_items_loop features_store k [] items scores = Inr (items, scores)"
| "similar_items_loop features_store k (seed_id # events) items scores =
     (case features_store seed_id k of
        Inl e \<Rightarrow> Inl e
      | Inr (item_id_2, score) \<Rightarrow>
          similar_items_loop features_store k events (items @ item_id_2) (scores @ score))"

text \<open>
  Python's ascending \<^verbatim>\<open>list.sort\<close> with a key. It compares keys with \<^verbatim>\<open><\<close> only.
  \<^item> It first looks for the run at the front of the list. When no element has a key
    smaller than the key of its predecessor, that run is the whole list and the list
    is left as it stands (\<open>ascending_run\<close>).
  \<^item> When no key is \<^verbatim>\<open>nan\<close> the keys are totally ordered and the sort is stable; the
    result of a stable sort is determined by its input, so the insertion sort
    \<open>sort_key\<close> stands for Python's.
  \<^item> Otherwise the keys are not totally ordered, and the result depends on which
    comparisons the run detection, the binary insertion and the merges of the
    interpreter at hand make. That result is the parameter \<open>unordered\<close>, of which
    nothing is assumed.
\<close>

fun ascending_run :: "('a \<Rightarrow> score) \<Rightarrow> 'a list \<Rightarrow> bool" where
  "ascending_run f (x # y # zs) = (\<not> py_lt (f y) (f x) \<and> ascending_run f (y # zs))"
| "ascending_run f zs = True"

definition py_list_sort :: "('a list \<Rightarrow> 'a list) \<Rightarrow> ('a \<Rightarrow> score) \<Rightarrow> 'a list \<Rightarrow> 'a list" where
  "py_list_sort unordered f xs =
     (if ascending_run f xs then xs
      else if list_all (\<lambda>x. f x \<noteq> NaN) xs then sort_key (\<lambda>x. num (f x)) xs
      else unordered xs)"

text \<open>
  \<^verbatim>\<open>sorted(xs, key=f, reverse=True)\<close>: Python reverses the list, sorts it ascending
  and reverses the result.
\<close>

definition py_sorted_reverse :: "('a list \<Rightarrow> 'a list) \<Rightarrow> ('a \<Rightarrow> score) \<Rightarrow> 'a list \<Rightarrow> 'a list" where
  "py_sorted_reverse unordered f xs = rev (py_list_sort unordered f (rev xs))"

type_synonym unordered_sort = "(int \<times> score) list \<Rightarrow> (int \<times> score) list"

definition recommendations_online ::
  "unordered_sort \<Rightarrow> events_lookup \<Rightarrow> similar_lookup \<Rightarrow> int \<Rightarrow> int \<Rightarrow> py_error + int list"
  where
  "recommendations_online unordered events_store features_store user_id k =
     (case events_store user_id 3 of
        Inl e \<Rightarrow> Inl e
      | Inr events \<Rightarrow>
          (case similar_items_loop features_store k events [] [] of
             Inl e \<Rightarrow> Inl e
           | Inr (items, scores) \<Rightarrow>
               (let combined = zip items scores;
                    combined = py_sorted_reverse unordered snd combined;
                    combined = map fst combined;
                    recs = dedup_ids combined
                in Inr (py_slice_to recs k))))"

subsection \<open>The blending endpoint\<close>

text \<open>
  \<^verbatim>\<open>
  recs_blended = []
  min_length = min(len(recs_offline), len(recs_online))
  for i in range(min_length):
      recs_blended.append(recs_offline[i])
      recs_blended.append(recs_online[i])
  if len(recs_offline) > min_length:
      recs_blended.extend(recs_offline[min_length:])
  if len(recs_online) > min_length:
      recs_blended.extend(recs_online[min_length:])
  recs_blended = dedup_ids(recs_blended)
  recs_blended = recs_blended[:k]
  \<close>
  The loop reads both lists by index; every index it uses is below \<open>min_length\<close>, so
  no read is out of range.
\<close>

definition interleave_loop :: "'a list \<Rightarrow> 'a list \<Rightarrow> nat \<Rightarrow> 'a list" where
  "interleave_loop recs_offline recs_online min_length =
     fold (\<lambda>i recs_blended. recs_blended @ [recs_offline ! i, recs_online ! i])
       [0..<min_length] []"

definition blend :: "'a list \<Rightarrow> 'a list \<Rightarrow> 'a list" where
  "blend recs_offline recs_online =
     (let min_length = min (length recs_offline) (length recs_online);
          recs_blended = interleave_loop recs_offline recs_online min_length;
          recs_blended =
            (if length recs_offline > min_length
             then recs_blended @ drop min_length recs_offline else recs_blended);
          recs_blended =
            (if length recs_online > min_length
             then recs_blended @ drop min_length recs_online else recs_blended)
      in recs_blended)"

definition recommendations_blend :: "'a list \<Rightarrow> 'a list \<Rightarrow> int \<Rightarrow> 'a list" where
  "recommendations_blend recs_offline recs_online k =
     py_slice_to (dedup_ids (blend recs_offline recs_online)) k"

text \<open>
  \<^verbatim>\<open>recommendations\<close> awaits the offline call, then the online call, then blends. An
  exception of either call leaves the function; the store keeps the counter update of a
  completed offline call.
\<close>

definition recommendations ::
  "Recommendations \<Rightarrow> unordered_sort \<Rightarrow> events_lookup \<Rightarrow> similar_lookup \<Rightarrow> int \<Rightarrow> int
     \<Rightarrow> Recommendations \<times> (py_error + int list)" where
  "recommendations rec_store unordered events_store features_store user_id k =
     (case recommendations_offline rec_store user_id k of
        (rec_store', Inl e) \<Rightarrow> (rec_store', Inl e)
      | (rec_store', Inr recs_offline) \<Rightarrow>
          (case recommendations_online unordered events_store features_store user_id k of
             Inl e \<Rightarrow> (rec_store', Inl e)
           | Inr recs_online \<Rightarrow>
               (rec_store', Inr (recommendations_blend recs_offline recs_online k))))"

subsection \<open>Example tables and collaborators\<close>

text \<open>
  A personal table in which user 1 has three rows and user 2 has one row, and a default
  table of two rows.
\<close>

definition ex_personal :: personal_frame where
  "ex_personal =
     [(1, \<lparr>item_id = 10, rank = 1\<rparr>), (1, \<lparr>item_id = 20, rank = 2\<rparr>),
      (1, \<lparr>item_id = 30, rank = 3\<rparr>), (2, \<lparr>item_id = 40, rank = 1\<rparr>)]"

definition ex_default :: default_frame where
  "ex_default = [\<lparr>item_id = 100, rank = 1\<rparr>, \<lparr>item_id = 200, rank = 2\<rparr>]"

definition ex_store :: Recommendations where
  "ex_store = load_default (load_personal Recommendations_init ex_personal) ex_default"

definition ex_store_personal_only :: Recommendations where
  "ex_store_personal_only = load_personal Recommendations_init ex_personal"


text \<open>
  A Recent-Activity lookup that fails, one that answers with no seed, and one that
  answers with the seeds 7 and 8. Four Similarity lookups:
  \<^item> \<open>ex_features\<close> answers seed 7 with item 11 and seed 8 with item 12, both at score
    one half;
  \<^item> \<open>ex_features_dup\<close> answers seed 7 with item 20, which is also a personal item of
    user 1, and seed 8 with item 12;
  \<^item> \<open>ex_features_sort\<close> answers seed 7 with items 11 and 12 at scores 1 and 2, and
    seed 8 with item 13 at score 2;
  \<^item> \<open>ex_features_nan\<close> answers seed 7 with items 11 and 12 at scores 1 and
    \<^verbatim>\<open>nan\<close>, and seed 8 with item 13 at score 2.

  \<open>ex_unordered\<close> is an interpreter whose sort leaves a list with unordered keys as
  it stands.
\<close>

definition ex_unordered :: unordered_sort where
  "ex_unordered xs = xs"

definition ex_events_failing :: events_lookup where
  "ex_events_failing user_id k = Inl RequestError"

definition ex_events_none :: events_lookup where
  "ex_events_none user_id k = Inr []"

definition ex_events :: events_lookup where
  "ex_events user_id k = Inr [7, 8]"

definition ex_features :: similar_lookup where
  "ex_features seed_id k =
     (if seed_id = 7 then Inr ([11], [Num (1 / 2)])
      else if seed_id = 8 then Inr ([12], [Num (1 / 2)])
      else Inr ([], []))"

definition ex_features_dup :: similar_lookup where
  "ex_features_dup seed_id k =
     (if seed_id = 7 then Inr ([20], [Num (1 / 2)])
      else if seed_id = 8 then Inr ([12], [Num (1 / 2)])
      else Inr ([], []))"

definition ex_features_sort :: similar_lookup where
  "ex_features_sort seed_id k =
     (if seed_id = 7 then Inr ([11, 12], [Num 1, Num 2])
      else if seed_id = 8 then Inr ([13], [Num 2])
      else Inr ([], []))"

definition ex_features_nan :: similar_lookup where
  "ex_features_nan seed_id k =
     (if seed_id = 7 then Inr ([11, 12], [Num 1, NaN])
      else if seed_id = 8 then Inr ([13], [Num 2])
      else Inr ([], []))"

section \<open>Properties\<close>

subsection \<open>Deduplication\<close>

lemma set_dedup_loop: "set (dedup_loop seen xs) = set xs - seen"
  by (induction xs arbitrary: seen) auto

lemma distinct_dedup_loop: "distinct (dedup_loop seen xs)"
  by (induction xs arbitrary: seen) (auto simp: set_dedup_loop)

lemma dedup_loop_distinct_id:
  "distinct xs \<Longrightarrow> set xs \<inter> seen = {} \<Longrightarrow> dedup_loop seen xs = xs"
  by (induction xs arbitrary: seen) auto

text \<open>
  C9. Deduplication is idempotent: deduplicating an already deduplicated sequence
  changes nothing.
\<close>

theorem dedup_ids_idempotent: "dedup_ids (dedup_ids L) = dedup_ids L"
  unfolding dedup_ids_def
  by (rule dedup_loop_distinct_id) (simp_all add: distinct_dedup_loop)

lemma dedup_loop_nth:
  "dedup_loop seen xs =
     map ((!) xs) (filter (\<lambda>i. xs ! i \<notin> seen \<union> set (take i xs)) [0..<length xs])"
proof (induction xs arbitrary: seen)
  case Nil
  show ?case by simp
next
  case (Cons x xs)
  let ?P = "\<lambda>i. (x # xs) ! i \<notin> seen \<union> set (take i (x # xs))"
  have upt: "[0..<Suc (length xs)] = 0 # map Suc [0..<length xs]"
    by (simp add: upt_conv_Cons map_Suc_upt del: upt_Suc)
  have tl: "map ((!) (x # xs)) (filter ?P (map Suc [0..<length xs]))
      = dedup_loop (insert x seen) xs"
    by (simp add: filter_map comp_def Cons.IH conj_ac)
  have split: "map ((!) (x # xs)) (filter ?P [0..<length (x # xs)])
      = (if x \<in> seen then [] else [x]) @ dedup_loop (insert x seen) xs"
    unfolding length_Cons upt filter.simps list.map tl [symmetric] by simp
  show ?case
  proof (cases "x \<in> seen")
    case True
    then have "insert x seen = seen" by auto
    with True show ?thesis unfolding split by simp
  next
    case False
    then show ?thesis unfolding split by simp
  qed
qed

lemma subseq_dedup_loop: "subseq (dedup_loop seen xs) xs"
  by (induction xs arbitrary: seen) auto

lemma length_dedup_loop: "length (dedup_loop seen xs) \<le> length xs"
  by (induction xs arbitrary: seen) (auto simp: le_SucI)

text \<open>
  C5. For every sequence \<open>L\<close>, \<open>dedup_ids L\<close> is a subsequence of \<open>L\<close> without
  repetitions that contains every element of \<open>L\<close>; it consists of exactly the elements
  at the positions of \<open>L\<close> whose element does not occur earlier in \<open>L\<close>, in the order
  of those positions; and it is not longer than \<open>L\<close>.
\<close>

theorem dedup_ids_first_occurrences:
  "subseq (dedup_ids L) L
   \<and> distinct (dedup_ids L)
   \<and> set (dedup_ids L) = set L
   \<and> dedup_ids L = map ((!) L) (filter (\<lambda>i. L ! i \<notin> set (take i L)) [0..<length L])
   \<and> length (dedup_ids L) \<le> length L"
proof -
  have "dedup_ids L = map ((!) L) (filter (\<lambda>i. L ! i \<notin> set (take i L)) [0..<length L])"
    unfolding dedup_ids_def by (simp add: dedup_loop_nth [of "{}" L])
  moreover have "subseq (dedup_ids L) L"
    unfolding dedup_ids_def by (rule subseq_dedup_loop)
  moreover have "distinct (dedup_ids L)"
    unfolding dedup_ids_def by (rule distinct_dedup_loop)
  moreover have "set (dedup_ids L) = set L"
    unfolding dedup_ids_def by (simp add: set_dedup_loop)
  moreover have "length (dedup_ids L) \<le> length L"
    unfolding dedup_ids_def by (rule length_dedup_loop)
  ultimately show ?thesis by blast
qed

subsection \<open>Blending\<close>

lemma interleave_loop_Suc:
  "interleave_loop Off On (Suc n) = interleave_loop Off On n @ [Off ! n, On ! n]"
  by (simp add: interleave_loop_def)

lemma length_interleave_loop: "length (interleave_loop Off On n) = 2 * n"
  by (induction n) (simp_all add: interleave_loop_Suc, simp add: interleave_loop_def)

lemma nth_interleave_loop:
  "i < n \<Longrightarrow> interleave_loop Off On n ! (2 * i) = Off ! i
     \<and> interleave_loop Off On n ! (2 * i + 1) = On ! i"
proof (induction n)
  case 0
  then show ?case by simp
next
  case (Suc n)
  show ?case
  proof (cases "i < n")
    case True
    with Suc.IH show ?thesis
      by (simp add: interleave_loop_Suc nth_append length_interleave_loop)
  next
    case False
    with Suc.prems have "i = n" by simp
    then show ?thesis
      by (simp add: interleave_loop_Suc nth_append length_interleave_loop)
  qed
qed

lemma blend_append:
  "blend Off On =
     interleave_loop Off On (min (length Off) (length On))
       @ drop (min (length Off) (length On)) Off @ drop (min (length Off) (length On)) On"
  by (simp add: blend_def Let_def)

lemma py_slice_to_nonneg: "0 \<le> k \<Longrightarrow> py_slice_to xs k = take (nat k) xs"
  by (simp add: py_slice_to_def)


lemma blend_positions:
  "length (blend Off On) = length Off + length On
   \<and> (\<forall>i < min (length Off) (length On).
         blend Off On ! (2 * i) = Off ! i \<and> blend Off On ! (2 * i + 1) = On ! i)
   \<and> drop (2 * min (length Off) (length On)) (blend Off On)
       = (if length On < length Off then drop (length On) Off else drop (length Off) On)"
proof -
  let ?m = "min (length Off) (length On)"
  have len: "length (blend Off On) = length Off + length On"
    by (simp add: blend_append length_interleave_loop)
  have nth: "\<forall>i < ?m. blend Off On ! (2 * i) = Off ! i \<and> blend Off On ! (2 * i + 1) = On ! i"
  proof (intro allI impI)
    fix i assume "i < ?m"
    then have "2 * i < 2 * ?m" and "2 * i + 1 < 2 * ?m" by linarith+
    with \<open>i < ?m\<close> show "blend Off On ! (2 * i) = Off ! i \<and> blend Off On ! (2 * i + 1) = On ! i"
      using nth_interleave_loop [of i ?m Off On]
      by (simp add: blend_append nth_append length_interleave_loop del: mult_less_cancel1)
  qed
  have rest: "drop (2 * ?m) (blend Off On)
      = (if length On < length Off then drop (length On) Off else drop (length Off) On)"
    by (simp add: blend_append length_interleave_loop min_def)
  from len nth rest show ?thesis by blast
qed

subsection \<open>The offline store\<close>

lemmas ex_store_defs =
  ex_store_def ex_store_personal_only_def ex_personal_def ex_default_def
  load_personal_def load_default_def Recommendations_init_def

lemmas get_defs = get_def get_try_def get_except_KeyError_def loc_def py_slice_to_def



lemma get_try_state: "get_try self user_id k = (s, Inl e) \<Longrightarrow> s = self"
  by (auto simp: get_try_def split: option.splits sum.splits)


text \<open>
  C3. The store \<open>ex_store\<close> holds exactly one personal row for user 2, with item 40.
  \<open>get\<close> for user 2 and \<open>k = 5\<close> returns the empty list and leaves both counters as
  they were: the row is selected as a \<open>Series\<close>, the conversion to a list raises, and
  the bare \<^verbatim>\<open>except\<close> answers.
\<close>

theorem get_single_personal_row:
  "loc ex_personal 2 = Inr (Series \<lparr>item_id = 40, rank = 1\<rparr>)
   \<and> get ex_store 2 5 = (ex_store, Inr [])"
  by (simp add: ex_store_defs get_defs)

text \<open>
  A store that did not go through startup: the personal table is loaded, the default
  table is not. For user 3, who has no personal row, \<open>get\<close> raises \<^verbatim>\<open>TypeError\<close>:
  the exception comes from the handler of \<^verbatim>\<open>KeyError\<close>, which the bare
  \<^verbatim>\<open>except\<close> does not cover.
\<close>

lemma get_default_not_loaded:
  "loc ex_personal 3 = Inl KeyError
   \<and> recs_default ex_store_personal_only = None
   \<and> get ex_store_personal_only 3 5 = (ex_store_personal_only, Inl TypeError)"
  by (simp add: ex_store_defs get_defs)

text \<open>
  C10. When the body of the \<^verbatim>\<open>try\<close> in \<open>get\<close> raises anything but \<^verbatim>\<open>KeyError\<close>,
  so that the bare \<^verbatim>\<open>except\<close> answers, \<open>get\<close> returns the empty list and both
  counters keep their values. On every call, whether it returns or raises, either both
  counters keep their values, or one of them grows by exactly 1 and the other keeps its
  value.
\<close>

theorem get_counters:
  assumes "get self user_id k = (self', r)"
  shows "(\<forall>s e. get_try self user_id k = (s, Inl e) \<and> e \<noteq> KeyError \<longrightarrow>
            r = Inr []
            \<and> request_personal_count self' = request_personal_count self
            \<and> request_default_count self' = request_default_count self)
    \<and> (request_personal_count self' = request_personal_count self
          \<and> request_default_count self' = request_default_count self
        \<or> request_personal_count self' = request_personal_count self + 1
          \<and> request_default_count self' = request_default_count self
        \<or> request_personal_count self' = request_personal_count self
          \<and> request_default_count self' = request_default_count self + 1)"
proof -
  obtain s t where t: "get_try self user_id k = (s, t)" by (cases "get_try self user_id k")
  show ?thesis
  proof (cases t)
    case (Inr recs)
    with t have "s = self\<lparr>request_personal_count := request_personal_count self + 1\<rparr>"
      by (auto simp: get_try_def split: option.splits sum.splits)
    with t Inr assms show ?thesis by (auto simp: get_def)
  next
    case (Inl e)
    with t have s: "s = self" by (simp add: get_try_state)
    show ?thesis
    proof (cases "e = KeyError")
      case True
      with t Inl s assms have "get_except_KeyError self k = (self', r)"
        by (simp add: get_def)
      with t Inl True show ?thesis
        by (auto simp: get_except_KeyError_def split: option.splits)
    next
      case False
      with t Inl s assms have "self' = self \<and> r = Inr []"
        by (cases e) (auto simp: get_def)
      with t Inl show ?thesis by simp
    qed
  qed
qed

theorem get_counters_witness:
  "get_try ex_store 2 5 = (ex_store, Inl AttributeError)
   \<and> AttributeError \<noteq> KeyError
   \<and> snd (get ex_store 2 5) = Inr []
   \<and> request_personal_count (fst (get ex_store 2 5)) = request_personal_count ex_store
   \<and> request_default_count (fst (get ex_store 2 5)) = request_default_count ex_store"
proof -
  have t: "get_try ex_store 2 5 = (ex_store, Inl AttributeError)"
    by (simp add: ex_store_defs get_try_def loc_def)
  have a: "AttributeError \<noteq> KeyError" by simp
  have g: "get ex_store 2 5 = (fst (get ex_store 2 5), snd (get ex_store 2 5))" by simp
  from get_counters [OF g] t a show ?thesis by blast
qed

subsection \<open>The online candidate generator\<close>


lemma score_eq_num: "a \<noteq> NaN \<Longrightarrow> b \<noteq> NaN \<Longrightarrow> a = b \<longleftrightarrow> num a = num b"
  by (cases a; cases b) simp_all









lemma similar_items_loop_ok:
  "(\<forall>seed_id \<in> set events. \<exists>r. features_store seed_id k = Inr r) \<Longrightarrow>
     \<exists>r. similar_items_loop features_store k events items scores = Inr r"
proof (induction events arbitrary: items scores)
  case Nil
  show ?case by simp
next
  case (Cons seed_id events)
  then obtain i2 sc where "features_store seed_id k = Inr (i2, sc)" by fastforce
  with Cons show ?case by simp
qed



lemmas online_defs =
  recommendations_online_def py_sorted_reverse_def py_list_sort_def dedup_ids_def
  py_slice_to_def ex_events_def ex_events_failing_def ex_events_none_def ex_features_def
  ex_features_dup_def ex_features_sort_def ex_features_nan_def ex_unordered_def









text \<open>
  C7. A failure of the Recent-Activity lookup is not absorbed: the online call raises
  the error of that lookup. The call returns the empty list when the lookup succeeds
  with no event.
\<close>

theorem recommendations_online_lookup_failure:
  "(events_store user_id 3 = Inl e \<longrightarrow>
      recommendations_online unordered events_store features_store user_id k = Inl e)
   \<and> (events_store user_id 3 = Inr [] \<longrightarrow>
      recommendations_online unordered events_store features_store user_id k = Inr [])"
  by (simp add: recommendations_online_def py_sorted_reverse_def py_list_sort_def
      dedup_ids_def py_slice_to_def)

theorem recommendations_online_lookup_failure_witness:
  "ex_events_failing 2 3 = Inl RequestError
   \<and> recommendations_online ex_unordered ex_events_failing ex_features 2 7 = Inl RequestError
   \<and> ex_events_none 2 3 = Inr []
   \<and> recommendations_online ex_unordered ex_events_none ex_features 2 7 = Inr []"
proof -
  have f: "ex_events_failing 2 3 = Inl RequestError" by (simp add: ex_events_failing_def)
  have n: "ex_events_none 2 3 = Inr []" by (simp add: ex_events_none_def)
  from recommendations_online_lookup_failure
    [of ex_events_failing 2 RequestError ex_unordered ex_features 7] f
  have a: "recommendations_online ex_unordered ex_events_failing ex_features 2 7
      = Inl RequestError"
    by blast
  from recommendations_online_lookup_failure
    [of ex_events_none 2 RequestError ex_unordered ex_features 7] n
  have b: "recommendations_online ex_unordered ex_events_none ex_features 2 7 = Inr []"
    by blast
  from f a n b show ?thesis by blast
qed

theorem recommendations_online_lookup_failure_counterexample:
  "ex_events_failing 1 3 = Inl RequestError
   \<and> recommendations_online ex_unordered ex_events_failing ex_features 1 5 = Inl RequestError
   \<and> recommendations_online ex_unordered ex_events_failing ex_features 1 5 \<noteq> Inr []"
  by (simp add: recommendations_online_def ex_events_failing_def)

subsection \<open>The offline store after startup\<close>


lemma py_slice_to_length: "py_slice_to xs (int (length xs)) = xs"
  by (simp add: py_slice_to_def)










subsection \<open>The blending endpoint as a whole\<close>

lemma recommendations_ok:
  assumes "get rec_store user_id k = (rec_store', Inr recs_offline)"
    and "recommendations_online unordered events_store features_store user_id k
      = Inr recs_online"
  shows "recommendations rec_store unordered events_store features_store user_id k
    = (rec_store', Inr (py_slice_to (dedup_ids (blend recs_offline recs_online)) k))"
  using assms
  by (simp add: recommendations_def recommendations_offline_def recommendations_blend_def)



lemma recommendations_Inr:
  assumes "recommendations rec_store unordered events_store features_store user_id k
    = (rec_store', Inr recs)"
  shows "\<exists>recs_offline recs_online.
      get rec_store user_id k = (rec_store', Inr recs_offline)
      \<and> recommendations_online unordered events_store features_store user_id k
          = Inr recs_online
      \<and> recs = recommendations_blend recs_offline recs_online k"
  using assms
  by (auto simp: recommendations_def recommendations_offline_def split: prod.splits sum.splits)

lemma dedup_ids_nth:
  "dedup_ids L = map ((!) L) (filter (\<lambda>i. L ! i \<notin> set (take i L)) [0..<length L])"
  unfolding dedup_ids_def by (simp add: dedup_loop_nth [of "{}" L])

lemma ex_get_3:
  "get ex_store 1 3 = (ex_store\<lparr>request_personal_count := 1\<rparr>, Inr [10, 20, 30])"
  by (simp add: ex_store_defs get_defs)

lemma ex_online_3:
  "recommendations_online ex_unordered ex_events ex_features 1 3 = Inr [11, 12]"
  by (simp add: online_defs)

lemma ex_online_dup_3:
  "recommendations_online ex_unordered ex_events ex_features_dup 1 3 = Inr [20, 12]"
  by (simp add: online_defs)

lemma ex_blend_3: "recommendations_blend [10, 20, 30 :: int] [11, 12] 3 = [10, 11, 20]"
  by (simp add: recommendations_blend_def blend_def interleave_loop_def dedup_ids_def
      py_slice_to_def Let_def numeral_2_eq_2 numeral_3_eq_3)

lemma ex_recommendations_3:
  "recommendations ex_store ex_unordered ex_events ex_features 1 3
     = (ex_store\<lparr>request_personal_count := 1\<rparr>, Inr [10, 11, 20])"
  by (simp add: recommendations_def recommendations_offline_def ex_get_3 ex_online_3 ex_blend_3)

lemma ex_first_occurrences_dup:
  "take 3 (map ((!) (blend [10, 20, 30 :: int] [20, 12]))
      (filter (\<lambda>i. blend [10, 20, 30 :: int] [20, 12] ! i
                 \<notin> set (take i (blend [10, 20, 30] [20, 12])))
         [0..<length (blend [10, 20, 30 :: int] [20, 12])]))
   = [10, 20, 12]"
  unfolding dedup_ids_nth [symmetric]
  by (simp add: blend_def interleave_loop_def dedup_ids_def Let_def numeral_2_eq_2
      numeral_3_eq_3)

text \<open>
  C1. For all lists \<open>Off\<close> and \<open>On\<close> and \<open>k \<ge> 0\<close>, with
  \<open>m = min (length Off) (length On)\<close>: the blended sequence \<open>blend Off On\<close> has all
  \<open>length Off + length On\<close> elements; its positions \<open>2i\<close> and \<open>2i + 1\<close> for \<open>i < m\<close>
  hold \<open>Off ! i\<close> and \<open>On ! i\<close>; after position \<open>2m\<close> comes the remainder of the longer
  list in its order. When the offline call returns \<open>Off\<close> and the online call returns
  \<open>On\<close>, \<open>recommendations\<close> returns the first \<open>k\<close> of those elements of the blended
  sequence that do not occur at an earlier position of it, in their order. In
  particular \<open>[A, B, C]\<close> and \<open>[X, Y]\<close> with \<open>k = 3\<close> give \<open>[A, X, B]\<close> when \<open>A\<close>, \<open>X\<close>,
  \<open>B\<close> are pairwise different, and \<open>[A, B]\<close> and \<open>[B, C]\<close> with \<open>k = 10\<close> give
  \<open>[A, B, C]\<close> when \<open>A\<close>, \<open>B\<close>, \<open>C\<close> are pairwise different.
\<close>

theorem recommendations_blend_alternates:
  assumes "0 \<le> k"
  shows "length (blend Off On) = length Off + length On
    \<and> (\<forall>i < min (length Off) (length On).
          blend Off On ! (2 * i) = Off ! i \<and> blend Off On ! (2 * i + 1) = On ! i)
    \<and> drop (2 * min (length Off) (length On)) (blend Off On)
        = (if length On < length Off then drop (length On) Off else drop (length Off) On)
    \<and> (get rec_store user_id k = (rec_store', Inr Off)
          \<and> recommendations_online unordered events_store features_store user_id k = Inr On
        \<longrightarrow>
        recommendations rec_store unordered events_store features_store user_id k
          = (rec_store',
             Inr (take (nat k)
               (map ((!) (blend Off On))
                 (filter (\<lambda>i. blend Off On ! i \<notin> set (take i (blend Off On)))
                    [0..<length (blend Off On)])))))
    \<and> (get rec_store user_id 3 = (rec_store', Inr [A, B, C])
          \<and> recommendations_online unordered events_store features_store user_id 3
              = Inr [X, Y]
          \<and> distinct [A, X, B] \<longrightarrow>
        recommendations rec_store unordered events_store features_store user_id 3
          = (rec_store', Inr [A, X, B]))
    \<and> (get rec_store user_id 10 = (rec_store', Inr [A, B])
          \<and> recommendations_online unordered events_store features_store user_id 10
              = Inr [B, C]
          \<and> distinct [A, B, C] \<longrightarrow>
        recommendations rec_store unordered events_store features_store user_id 10
          = (rec_store', Inr [A, B, C]))"
proof -
  have main: "get rec_store user_id k = (rec_store', Inr Off)
        \<and> recommendations_online unordered events_store features_store user_id k = Inr On
      \<longrightarrow>
      recommendations rec_store unordered events_store features_store user_id k
        = (rec_store',
           Inr (take (nat k)
             (map ((!) (blend Off On))
               (filter (\<lambda>i. blend Off On ! i \<notin> set (take i (blend Off On)))
                  [0..<length (blend Off On)]))))"
    using assms
    by (simp add: recommendations_ok py_slice_to_nonneg dedup_ids_nth [symmetric])
  have ex1: "get rec_store user_id 3 = (rec_store', Inr [A, B, C])
        \<and> recommendations_online unordered events_store features_store user_id 3
            = Inr [X, Y]
        \<and> distinct [A, X, B] \<longrightarrow>
      recommendations rec_store unordered events_store features_store user_id 3
        = (rec_store', Inr [A, X, B])"
    by (simp add: recommendations_ok py_slice_to_def blend_def interleave_loop_def
        dedup_ids_def Let_def numeral_2_eq_2 numeral_3_eq_3)
  have ex2: "get rec_store user_id 10 = (rec_store', Inr [A, B])
        \<and> recommendations_online unordered events_store features_store user_id 10
            = Inr [B, C]
        \<and> distinct [A, B, C] \<longrightarrow>
      recommendations rec_store unordered events_store features_store user_id 10
        = (rec_store', Inr [A, B, C])"
    by (auto simp add: recommendations_ok py_slice_to_def blend_def interleave_loop_def
        dedup_ids_def Let_def numeral_2_eq_2)
  from blend_positions [of Off On] main ex1 ex2 show ?thesis by blast
qed

theorem recommendations_blend_alternates_witness:
  "(0::int) \<le> 3
   \<and> get ex_store 1 3 = (ex_store\<lparr>request_personal_count := 1\<rparr>, Inr [10, 20, 30])
   \<and> recommendations_online ex_unordered ex_events ex_features_dup 1 3 = Inr [20, 12]
   \<and> length (blend [10, 20, 30 :: int] [20, 12]) = 5
   \<and> blend [10, 20, 30 :: int] [20, 12] ! 2 = 20 \<and> blend [10, 20, 30 :: int] [20, 12] ! 3 = 12
   \<and> drop 4 (blend [10, 20, 30 :: int] [20, 12]) = [30]
   \<and> recommendations ex_store ex_unordered ex_events ex_features_dup 1 3
       = (ex_store\<lparr>request_personal_count := 1\<rparr>, Inr [10, 20, 12])
   \<and> recommendations_online ex_unordered ex_events ex_features 1 3 = Inr [11, 12]
   \<and> distinct [10, 11, 20 :: int]
   \<and> recommendations ex_store ex_unordered ex_events ex_features 1 3
       = (ex_store\<lparr>request_personal_count := 1\<rparr>, Inr [10, 11, 20])"
proof -
  have k: "(0::int) \<le> 3" by simp
  note w = recommendations_blend_alternates [OF k, of "[10, 20, 30]" "[20, 12]" ex_store 1
      "ex_store\<lparr>request_personal_count := 1\<rparr>" ex_unordered ex_events ex_features_dup]
  note v = recommendations_blend_alternates [OF k, of "[10, 20, 30]" "[11, 12]" ex_store 1
      "ex_store\<lparr>request_personal_count := 1\<rparr>" ex_unordered ex_events ex_features
      10 20 30 11 12]
  from w have len: "length (blend [10, 20, 30 :: int] [20, 12]) = 5" by simp
  from w have "\<forall>i < min (length [10, 20, 30 :: int]) (length [20, 12 :: int]).
      blend [10, 20, 30 :: int] [20, 12] ! (2 * i) = [10, 20, 30] ! i
      \<and> blend [10, 20, 30 :: int] [20, 12] ! (2 * i + 1) = [20, 12] ! i"
    by blast
  then have "(1::nat) < min (length [10, 20, 30 :: int]) (length [20, 12 :: int]) \<longrightarrow>
      blend [10, 20, 30 :: int] [20, 12] ! (2 * 1) = [10, 20, 30] ! 1
      \<and> blend [10, 20, 30 :: int] [20, 12] ! (2 * 1 + 1) = [20, 12] ! 1"
    by (rule spec)
  then have nth: "blend [10, 20, 30 :: int] [20, 12] ! 2 = 20
      \<and> blend [10, 20, 30 :: int] [20, 12] ! 3 = 12"
    by simp
  from w have rest: "drop 4 (blend [10, 20, 30 :: int] [20, 12]) = [30]" by simp
  let ?B = "blend [10, 20, 30 :: int] [20, 12]"
  from w ex_get_3 ex_online_dup_3
  have "recommendations ex_store ex_unordered ex_events ex_features_dup 1 3
      = (ex_store\<lparr>request_personal_count := 1\<rparr>,
         Inr (take (nat 3)
           (map ((!) ?B) (filter (\<lambda>i. ?B ! i \<notin> set (take i ?B)) [0..<length ?B]))))"
    by blast
  then have dup: "recommendations ex_store ex_unordered ex_events ex_features_dup 1 3
      = (ex_store\<lparr>request_personal_count := 1\<rparr>, Inr [10, 20, 12])"
    by (simp only: ex_first_occurrences_dup nat_numeral)
  have d: "distinct [10, 11, 20 :: int]" by simp
  with v ex_get_3 ex_online_3
  have ex: "recommendations ex_store ex_unordered ex_events ex_features 1 3
      = (ex_store\<lparr>request_personal_count := 1\<rparr>, Inr [10, 11, 20])"
    by blast
  show ?thesis
    by (rule conjI [OF k conjI [OF ex_get_3 conjI [OF ex_online_dup_3 conjI [OF len
        conjI [OF conjunct1 [OF nth] conjI [OF conjunct2 [OF nth] conjI [OF rest
        conjI [OF dup conjI [OF ex_online_3 conjI [OF d ex]]]]]]]]]])
qed

text \<open>
  C2. For every store, every behaviour of the two lookups, every user and every
  \<open>k \<ge> 0\<close>, a list returned by \<open>recommendations\<close> has at most \<open>k\<close> elements.
\<close>

theorem recommendations_length_le_k:
  assumes "0 \<le> k"
    and "recommendations rec_store unordered events_store features_store user_id k
      = (rec_store', Inr recs)"
  shows "int (length recs) \<le> k"
proof -
  from recommendations_Inr [OF assms(2)] obtain recs_offline recs_online
    where "recs = recommendations_blend recs_offline recs_online k" by blast
  with assms(1) have "recs = take (nat k) (dedup_ids (blend recs_offline recs_online))"
    by (simp add: recommendations_blend_def py_slice_to_nonneg)
  then have "length recs \<le> nat k" by simp
  with assms(1) show ?thesis by linarith
qed

theorem recommendations_length_le_k_witness:
  "(0::int) \<le> 3
   \<and> recommendations ex_store ex_unordered ex_events ex_features 1 3
       = (ex_store\<lparr>request_personal_count := 1\<rparr>, Inr [10, 11, 20])
   \<and> int (length [10, 11, 20 :: int]) \<le> 3"
proof -
  have k: "(0::int) \<le> 3" by simp
  have c: "int (length [10, 11, 20 :: int]) \<le> 3"
    by (rule recommendations_length_le_k [OF k ex_recommendations_3])
  show ?thesis by (rule conjI [OF k conjI [OF ex_recommendations_3 c]])
qed

subsection \<open>Negative \<open>k\<close>\<close>













end
